theory Spec2Isabelle
  imports Main
begin

section \<open>Go values\<close>

text \<open>
  A Go string is a sequence of bytes, as \<^typ>\<open>string\<close> is. A Go slice is either
  \<^verbatim>\<open>nil\<close> or a sequence of elements; the two differ when a slice is compared with
  \<^verbatim>\<open>nil\<close> and when \<^verbatim>\<open>encoding/json\<close> writes it (\<^verbatim>\<open>null\<close> against \<^verbatim>\<open>[]\<close>), so a
  slice is an optional list with \<open>None\<close> for \<^verbatim>\<open>nil\<close>. The whitelist's mutex is left out:
  every method is modelled as it runs while holding the lock.
\<close>

type_synonym 'a slice = "'a list option"

definition len :: "'a slice \<Rightarrow> nat" where
  "len s = (case s of None \<Rightarrow> 0 | Some xs \<Rightarrow> length xs)"

text \<open>The elements a \<^verbatim>\<open>for ... range\<close> loop visits, in order.\<close>

definition elems :: "'a slice \<Rightarrow> 'a list" where
  "elems s = (case s of None \<Rightarrow> [] | Some xs \<Rightarrow> xs)"

text \<open>\<^verbatim>\<open>append(s, x)\<close>: the result is never \<^verbatim>\<open>nil\<close>.\<close>

definition go_append :: "'a slice \<Rightarrow> 'a \<Rightarrow> 'a slice" where
  "go_append s x = Some (elems s @ [x])"

section \<open>models: tokens and the whitelist\<close>

record Token =
  Address :: string
  AddressHash :: string
  CirculatingMarketCap :: "string option"
  Decimals :: string
  ExchangeRate :: "string option"
  Holders :: string
  HoldersCount :: string
  IconURL :: "string option"
  Name :: string
  Symbol :: string
  TotalSupply :: string
  Type :: string
  Volume24h :: "string option"

record TokenResponse =
  Items :: "Token slice"

text \<open>
  The repository holds two definitions of the whitelist. Both have the field
  \<open>Addresses\<close>, and every method but \<^verbatim>\<open>LoadFromJSON\<close> reads and writes that field
  only, with the same text in both files; the extended definition adds \<open>Tokens\<close>.
\<close>

record TokenWhitelist =
  Addresses :: "string slice"

record WhitelistToken =
  wt_Address :: string
  wt_IconURL :: "string option"

record TokenWhitelistExt = TokenWhitelist +
  Tokens :: "WhitelistToken slice"

definition NewTokenWhitelist :: TokenWhitelist where
  "NewTokenWhitelist = \<lparr>Addresses = Some []\<rparr>"

definition NewTokenWhitelistExt :: TokenWhitelistExt where
  "NewTokenWhitelistExt = \<lparr>Addresses = Some [], Tokens = None\<rparr>"

fun Contains_loop :: "string list \<Rightarrow> string \<Rightarrow> bool" where
  "Contains_loop [] address = False"
| "Contains_loop (addr # rest) address =
     (if addr = address then True else Contains_loop rest address)"

definition Contains :: "'w TokenWhitelist_scheme \<Rightarrow> string \<Rightarrow> bool" where
  "Contains tw address = Contains_loop (elems (Addresses tw)) address"

definition Size :: "'w TokenWhitelist_scheme \<Rightarrow> nat" where
  "Size tw = len (Addresses tw)"

section \<open>encoding/json documents\<close>

text \<open>
  What \<^verbatim>\<open>json.Encoder.Encode\<close> is given is modelled as the JSON document it writes:
  a struct becomes an object with its fields in declaration order under their
  \<^verbatim>\<open>json\<close> tags, a string a JSON string, a \<^verbatim>\<open>nil\<close> pointer or slice \<^verbatim>\<open>null\<close>, any other
  slice an array. The bytes of the document (escaping, the final newline) are the
  library's business.
\<close>

datatype json = JNull | JString string | JArray "json list" | JObject "(string \<times> json) list"

definition marshal_ptr :: "string option \<Rightarrow> json" where
  "marshal_ptr p = (case p of None \<Rightarrow> JNull | Some s \<Rightarrow> JString s)"

definition marshal_Token :: "Token \<Rightarrow> json" where
  "marshal_Token t = JObject
     [(''address'', JString (Address t)),
      (''address_hash'', JString (AddressHash t)),
      (''circulating_market_cap'', marshal_ptr (CirculatingMarketCap t)),
      (''decimals'', JString (Decimals t)),
      (''exchange_rate'', marshal_ptr (ExchangeRate t)),
      (''holders'', JString (Holders t)),
      (''holders_count'', JString (HoldersCount t)),
      (''icon_url'', marshal_ptr (IconURL t)),
      (''name'', JString (Name t)),
      (''symbol'', JString (Symbol t)),
      (''total_supply'', JString (TotalSupply t)),
      (''type'', JString (Type t)),
      (''volume_24h'', marshal_ptr (Volume24h t))]"

definition marshal_TokenResponse :: "TokenResponse \<Rightarrow> json" where
  "marshal_TokenResponse r = JObject
     [(''items'', case Items r of None \<Rightarrow> JNull | Some ts \<Rightarrow> JArray (map marshal_Token ts))]"

section \<open>middleware: the token filter\<close>

text \<open>
  The loop of \<^verbatim>\<open>filterTokens\<close>: \<open>filteredTokens\<close> starts as a \<^verbatim>\<open>nil\<close> slice and grows by
  \<^verbatim>\<open>append\<close> at every token the whitelist contains.
\<close>

fun filterTokens_loop :: "'w TokenWhitelist_scheme \<Rightarrow> Token list \<Rightarrow> Token slice \<Rightarrow> Token slice" where
  "filterTokens_loop tw [] filteredTokens = filteredTokens"
| "filterTokens_loop tw (token # rest) filteredTokens =
     filterTokens_loop tw rest
       (if Contains tw (Address token) then go_append filteredTokens token else filteredTokens)"

text \<open>The response is a pointer, \<open>None\<close> for \<^verbatim>\<open>nil\<close>.\<close>

definition filterTokens :: "'w TokenWhitelist_scheme \<Rightarrow> TokenResponse option \<Rightarrow> TokenResponse" where
  "filterTokens tw response =
     (case response of
        None \<Rightarrow> \<lparr>Items = Some []\<rparr>
      | Some r \<Rightarrow>
          if len (Items r) = 0 then \<lparr>Items = Some []\<rparr>
          else if Size tw = 0 then r
          else \<lparr>Items = filterTokens_loop tw (elems (Items r)) None\<rparr>)"

text \<open>
  The claim's words, for comparison: the items whose address is a member of the
  whitelist, in their order.
\<close>

definition whitelisted_items :: "string list \<Rightarrow> Token list \<Rightarrow> Token list" where
  "whitelisted_items W T = filter (\<lambda>t. Address t \<in> set W) T"

definition sample_token :: "string \<Rightarrow> Token" where
  "sample_token a = \<lparr>Address = a, AddressHash = a, CirculatingMarketCap = None,
     Decimals = ''18'', ExchangeRate = None, Holders = ''1'', HoldersCount = ''1'',
     IconURL = None, Name = ''Token'', Symbol = ''TKN'', TotalSupply = ''1000'',
     Type = ''ERC-20'', Volume24h = None\<rparr>"

section \<open>Go errors\<close>

text \<open>
  An error is one of the following. \<open>NetworkError\<close> and \<open>APIError\<close> are the client's two types;
  \<open>Errorf prefix err\<close> is \<^verbatim>\<open>fmt.Errorf(prefix + "%w", err)\<close>, the only way the
  repository wraps an error; \<open>LibError\<close> is a value of one of the three library types
  that \<^verbatim>\<open>IsNetworkError\<close> asks for, with its text and what its \<^verbatim>\<open>Unwrap\<close> returns;
  \<open>ErrorString\<close> is any other error, known by its text.
\<close>

datatype lib_type = NetOpError | UrlError | NetDNSError

datatype error =
    NetworkError string string error
  | APIError int string string
  | Errorf string error
  | LibError lib_type string "error option"
  | ErrorString string

text \<open>\<^verbatim>\<open>%d\<close> of a Go \<^verbatim>\<open>int\<close>.\<close>

fun itoa_nat :: "nat \<Rightarrow> string" where
  "itoa_nat n =
     (if n < 10 then [''0123456789'' ! n]
      else itoa_nat (n div 10) @ [''0123456789'' ! (n mod 10)])"

definition itoa :: "int \<Rightarrow> string" where
  "itoa i = (if i < 0 then CHR ''-'' # itoa_nat (nat (- i)) else itoa_nat (nat i))"

text \<open>The method \<^verbatim>\<open>Error()\<close>.\<close>

fun Error :: "error \<Rightarrow> string" where
  "Error (NetworkError operation url err) =
     ''network error during '' @ operation @ '' to '' @ url @ '': '' @ Error err"
| "Error (APIError statusCode st url) =
     ''API error: '' @ st @ '' ('' @ itoa statusCode @ '') from '' @ url"
| "Error (Errorf prefix err) = prefix @ Error err"
| "Error (LibError ty txt inner) = txt"
| "Error (ErrorString txt) = txt"

section \<open>models: the methods of the whitelist\<close>

text \<open>
  \<^verbatim>\<open>Validate\<close>: \<open>seen\<close> is the map of the addresses met so far, \<open>i\<close> the loop index.
\<close>

fun Validate_loop :: "nat \<Rightarrow> string list \<Rightarrow> string set \<Rightarrow> error option" where
  "Validate_loop i [] seen = None"
| "Validate_loop i (addr # rest) seen =
     (if addr = [] then Some (ErrorString (''empty address at index '' @ itoa (int i)))
      else if addr \<in> seen then Some (ErrorString (''duplicate address found: '' @ addr))
      else Validate_loop (Suc i) rest (insert addr seen))"

definition Validate :: "'w TokenWhitelist_scheme \<Rightarrow> error option" where
  "Validate tw =
     (case Addresses tw of
        None \<Rightarrow> Some (ErrorString ''addresses slice is nil'')
      | Some addrs \<Rightarrow> Validate_loop 0 addrs {})"

text \<open>
  \<^verbatim>\<open>AddAddress\<close> returns the error (\<open>None\<close> for \<^verbatim>\<open>nil\<close>) and the whitelist as the call
  leaves it. Its duplicate check is the loop of \<^verbatim>\<open>Contains\<close>.
\<close>

definition AddAddress ::
  "'w TokenWhitelist_scheme \<Rightarrow> string \<Rightarrow> error option \<times> 'w TokenWhitelist_scheme" where
  "AddAddress tw address =
     (if address = [] then (Some (ErrorString ''address cannot be empty''), tw)
      else if Contains_loop (elems (Addresses tw)) address
        then (Some (ErrorString (''address '' @ address @ '' already exists in whitelist'')), tw)
      else (None, tw\<lparr>Addresses := go_append (Addresses tw) address\<rparr>))"

text \<open>
  \<^verbatim>\<open>RemoveAddress\<close>: the loop stops at the first index \<open>i\<close> whose entry is the address,
  and the slice becomes \<^verbatim>\<open>append(Addresses[:i], Addresses[i+1:]...)\<close>.
\<close>

fun RemoveAddress_loop :: "nat \<Rightarrow> string list \<Rightarrow> string \<Rightarrow> nat option" where
  "RemoveAddress_loop i [] address = None"
| "RemoveAddress_loop i (addr # rest) address =
     (if addr = address then Some i else RemoveAddress_loop (Suc i) rest address)"

definition RemoveAddress ::
  "'w TokenWhitelist_scheme \<Rightarrow> string \<Rightarrow> bool \<times> 'w TokenWhitelist_scheme" where
  "RemoveAddress tw address =
     (case RemoveAddress_loop 0 (elems (Addresses tw)) address of
        Some i \<Rightarrow>
          (True, tw\<lparr>Addresses :=
             Some (take i (elems (Addresses tw)) @ drop (Suc i) (elems (Addresses tw)))\<rparr>)
      | None \<Rightarrow> (False, tw))"

definition Clear :: "'w TokenWhitelist_scheme \<Rightarrow> 'w TokenWhitelist_scheme" where
  "Clear tw = tw\<lparr>Addresses := Some []\<rparr>"

text \<open>
  \<^verbatim>\<open>LoadFromJSON\<close>. \<^verbatim>\<open>json.Unmarshal\<close> belongs to the standard library and is a
  parameter: it maps the bytes to an error or to the local struct \<open>temp\<close>, where a field
  whose key is absent from the document stays \<^verbatim>\<open>nil\<close>. The first definition is the one
  of \<^verbatim>\<open>models/token.go\<close>, whose \<open>temp\<close> has the field \<open>Addresses\<close> only; the second
  is the extended one, whose \<open>temp\<close> has \<open>Tokens\<close> too.
\<close>

record temp =
  temp_Addresses :: "string slice"

record tempExt = temp +
  temp_Tokens :: "WhitelistToken slice"

definition LoadFromJSON ::
  "(string \<Rightarrow> error + temp) \<Rightarrow> 'w TokenWhitelist_scheme \<Rightarrow> string
     \<Rightarrow> error option \<times> 'w TokenWhitelist_scheme" where
  "LoadFromJSON unmarshal tw data =
     (case unmarshal data of
        Inl err \<Rightarrow> (Some err, tw)
      | Inr t \<Rightarrow>
          (None,
           if temp_Addresses t = None then tw\<lparr>Addresses := Some []\<rparr>
           else tw\<lparr>Addresses := temp_Addresses t\<rparr>))"

definition LoadFromJSONExt ::
  "(string \<Rightarrow> error + tempExt) \<Rightarrow> TokenWhitelistExt \<Rightarrow> string
     \<Rightarrow> error option \<times> TokenWhitelistExt" where
  "LoadFromJSONExt unmarshal tw data =
     (case unmarshal data of
        Inl err \<Rightarrow> (Some err, tw)
      | Inr t \<Rightarrow>
          (None,
           if temp_Tokens t \<noteq> None \<and> 0 < len (temp_Tokens t) then
             tw\<lparr>Tokens := temp_Tokens t,
                Addresses := Some (map wt_Address (elems (temp_Tokens t)))\<rparr>
           else if temp_Addresses t \<noteq> None then
             tw\<lparr>Addresses := temp_Addresses t,
                Tokens := Some (map (\<lambda>addr. \<lparr>wt_Address = addr, wt_IconURL = None\<rparr>)
                                  (elems (temp_Addresses t)))\<rparr>
           else tw\<lparr>Addresses := Some [], Tokens := Some []\<rparr>))"

text \<open>
  \<^verbatim>\<open>LoadFromFile\<close>. The file system answers two questions about a name: whether
  \<^verbatim>\<open>os.Stat\<close> fails with an error that \<^verbatim>\<open>os.IsNotExist\<close> accepts, and what
  \<^verbatim>\<open>ioutil.ReadFile\<close> returns.
\<close>

record file_system =
  IsNotExist :: "string \<Rightarrow> bool"
  ReadFile :: "string \<Rightarrow> error + string"

definition LoadFromFile ::
  "(string \<Rightarrow> error + temp) \<Rightarrow> file_system \<Rightarrow> 'w TokenWhitelist_scheme \<Rightarrow> string
     \<Rightarrow> error option \<times> 'w TokenWhitelist_scheme" where
  "LoadFromFile unmarshal fs tw filename =
     (if IsNotExist fs filename then (None, tw)
      else case ReadFile fs filename of
        Inl err \<Rightarrow>
          (Some (Errorf (''failed to read whitelist file '' @ filename @ '': '') err), tw)
      | Inr data \<Rightarrow>
          (case LoadFromJSON unmarshal tw data of
             (Some err, tw') \<Rightarrow>
               (Some (Errorf (''failed to parse whitelist file '' @ filename @ '': '') err), tw')
           | (None, tw') \<Rightarrow>
               (case Validate tw' of
                  Some err \<Rightarrow>
                    (Some (Errorf (''whitelist validation failed for file '' @ filename @ '': '')
                       err), tw')
                | None \<Rightarrow> (None, tw'))))"

definition LoadFromFileExt ::
  "(string \<Rightarrow> error + tempExt) \<Rightarrow> file_system \<Rightarrow> TokenWhitelistExt \<Rightarrow> string
     \<Rightarrow> error option \<times> TokenWhitelistExt" where
  "LoadFromFileExt unmarshal fs tw filename =
     (if IsNotExist fs filename then (None, tw)
      else case ReadFile fs filename of
        Inl err \<Rightarrow>
          (Some (Errorf (''failed to read whitelist file '' @ filename @ '': '') err), tw)
      | Inr data \<Rightarrow>
          (case LoadFromJSONExt unmarshal tw data of
             (Some err, tw') \<Rightarrow>
               (Some (Errorf (''failed to parse whitelist file '' @ filename @ '': '') err), tw')
           | (None, tw') \<Rightarrow>
               (case Validate tw' of
                  Some err \<Rightarrow>
                    (Some (Errorf (''whitelist validation failed for file '' @ filename @ '': '')
                       err), tw')
                | None \<Rightarrow> (None, tw'))))"

text \<open>
  Sequences of calls on one whitelist: a call, and the whitelist after a list of calls
  made in order on a fresh one.
\<close>

datatype call = CallLoadFromJSON string | CallAddAddress string | CallRemoveAddress string
  | CallClear

fun after_call ::
  "(string \<Rightarrow> error + temp) \<Rightarrow> 'w TokenWhitelist_scheme \<Rightarrow> call \<Rightarrow> 'w TokenWhitelist_scheme" where
  "after_call unmarshal tw (CallLoadFromJSON data) = snd (LoadFromJSON unmarshal tw data)"
| "after_call unmarshal tw (CallAddAddress a) = snd (AddAddress tw a)"
| "after_call unmarshal tw (CallRemoveAddress a) = snd (RemoveAddress tw a)"
| "after_call unmarshal tw CallClear = Clear tw"

fun after_callExt ::
  "(string \<Rightarrow> error + tempExt) \<Rightarrow> TokenWhitelistExt \<Rightarrow> call \<Rightarrow> TokenWhitelistExt" where
  "after_callExt unmarshal tw (CallLoadFromJSON data) = snd (LoadFromJSONExt unmarshal tw data)"
| "after_callExt unmarshal tw (CallAddAddress a) = snd (AddAddress tw a)"
| "after_callExt unmarshal tw (CallRemoveAddress a) = snd (RemoveAddress tw a)"
| "after_callExt unmarshal tw CallClear = Clear tw"

definition after_calls :: "(string \<Rightarrow> error + temp) \<Rightarrow> call list \<Rightarrow> TokenWhitelist" where
  "after_calls unmarshal cs = foldl (after_call unmarshal) NewTokenWhitelist cs"

definition after_callsExt ::
  "(string \<Rightarrow> error + tempExt) \<Rightarrow> call list \<Rightarrow> TokenWhitelistExt" where
  "after_callsExt unmarshal cs = foldl (after_callExt unmarshal) NewTokenWhitelistExt cs"

section \<open>client: fetching the tokens, classifying errors\<close>

text \<open>
  What the backend answers: status code and status line, the header entries in the
  order a \<^verbatim>\<open>range\<close> loop over the map meets them, and the body as the bytes that can be
  read from it together with the error that ends the reading, if any.
\<close>

record backend_response =
  StatusCode :: int
  Status :: string
  Header :: "(string \<times> string list) list"
  Body :: "string \<times> error option"

text \<open>
  \<^verbatim>\<open>parseJSON\<close> and \<^verbatim>\<open>GetTokens\<close>. The library is a parameter again: \<open>unmarshal\<close> is
  \<^verbatim>\<open>json.Unmarshal\<close> into a \<^verbatim>\<open>TokenResponse\<close>, \<open>newRequest\<close> is the error of
  \<^verbatim>\<open>http.NewRequestWithContext\<close> for a \<^verbatim>\<open>GET\<close> of the URL, \<open>do\<close> is \<^verbatim>\<open>client.Do\<close> on it.
\<close>

definition parseJSON :: "(string \<Rightarrow> error + 'v) \<Rightarrow> string \<Rightarrow> error + 'v" where
  "parseJSON unmarshal data =
     (if length data = 0 then Inl (ErrorString ''empty response body'')
      else case unmarshal data of
        Inl err \<Rightarrow> Inl (Errorf ''invalid JSON: '' err)
      | Inr v \<Rightarrow> Inr v)"

definition GetTokens ::
  "(string \<Rightarrow> error + TokenResponse) \<Rightarrow> (string \<Rightarrow> error option)
     \<Rightarrow> (string \<Rightarrow> error + backend_response) \<Rightarrow> string \<Rightarrow> error + TokenResponse" where
  "GetTokens unmarshal newRequest do backendURL =
     (let targetURL = backendURL @ ''/tokens'' in
      case newRequest targetURL of
        Some err \<Rightarrow> Inl (Errorf ''failed to create tokens request: '' err)
      | None \<Rightarrow>
          (case do targetURL of
             Inl err \<Rightarrow> Inl (NetworkError ''get_tokens'' targetURL err)
           | Inr resp \<Rightarrow>
               if StatusCode resp \<noteq> 200 then
                 Inl (APIError (StatusCode resp) (Status resp) targetURL)
               else
                 (case snd (Body resp) of
                    Some err \<Rightarrow> Inl (Errorf ''failed to read response body: '' err)
                  | None \<Rightarrow>
                      (case parseJSON unmarshal (fst (Body resp)) of
                         Inl err \<Rightarrow> Inl (Errorf ''failed to parse tokens response: '' err)
                       | Inr tokenResponse \<Rightarrow> Inr tokenResponse))))"

text \<open>
  \<^verbatim>\<open>errors.As\<close> walks the chain that \<^verbatim>\<open>Unwrap\<close> gives, the error itself first.
\<close>

fun chain :: "error \<Rightarrow> error list" where
  "chain (NetworkError operation url err) = NetworkError operation url err # chain err"
| "chain (APIError statusCode st url) = [APIError statusCode st url]"
| "chain (Errorf prefix err) = Errorf prefix err # chain err"
| "chain (LibError ty txt None) = [LibError ty txt None]"
| "chain (LibError ty txt (Some err)) = LibError ty txt (Some err) # chain err"
| "chain (ErrorString txt) = [ErrorString txt]"

fun is_NetworkError :: "error \<Rightarrow> bool" where
  "is_NetworkError (NetworkError operation url err) = True"
| "is_NetworkError e = False"

fun is_APIError :: "error \<Rightarrow> bool" where
  "is_APIError (APIError statusCode st url) = True"
| "is_APIError e = False"

fun is_LibError :: "error \<Rightarrow> bool" where
  "is_LibError (LibError ty txt inner) = True"
| "is_LibError e = False"

definition HasPrefix :: "string \<Rightarrow> string \<Rightarrow> bool" where
  "HasPrefix s pre = (length pre \<le> length s \<and> take (length pre) s = pre)"

definition HasSuffix :: "string \<Rightarrow> string \<Rightarrow> bool" where
  "HasSuffix s suffix =
     (length suffix \<le> length s \<and> drop (length s - length suffix) s = suffix)"

definition TrimSuffix :: "string \<Rightarrow> string \<Rightarrow> string" where
  "TrimSuffix s suffix =
     (if HasSuffix s suffix then take (length s - length suffix) s else s)"

text \<open>\<^verbatim>\<open>strings.Contains\<close>: the substring starts at some position of \<open>s\<close>.\<close>

fun strings_Contains :: "string \<Rightarrow> string \<Rightarrow> bool" where
  "strings_Contains [] substr = (substr = [])"
| "strings_Contains (c # cs) substr =
     (HasPrefix (c # cs) substr \<or> strings_Contains cs substr)"

definition networkKeywords :: "string list" where
  "networkKeywords =
     [''network'', ''timeout'', ''connection'', ''refused'', ''unreachable'',
      ''no such host'', ''dns'', ''dial'', ''i/o timeout'', ''broken pipe'']"

text \<open>
  \<^verbatim>\<open>IsNetworkError\<close> is called with errors that are not \<^verbatim>\<open>nil\<close>. \<^verbatim>\<open>strings.ToLower\<close> is the
  parameter \<open>toLower\<close>.
\<close>

definition IsNetworkError :: "(string \<Rightarrow> string) \<Rightarrow> error \<Rightarrow> bool" where
  "IsNetworkError toLower err =
     (if list_ex is_NetworkError (chain err) then True
      else if list_ex is_LibError (chain err) then True
      else list_ex (\<lambda>keyword. strings_Contains (toLower (Error err)) keyword) networkKeywords)"

definition IsAPIError :: "error \<Rightarrow> bool" where
  "IsAPIError err = list_ex is_APIError (chain err)"

text \<open>Lower case on the ASCII letters, for concrete runs.\<close>

definition ascii_lower :: "string \<Rightarrow> string" where
  "ascii_lower s =
     map (\<lambda>c. case map_of (zip ''ABCDEFGHIJKLMNOPQRSTUVWXYZ'' ''abcdefghijklmnopqrstuvwxyz'') c of
                 Some l \<Rightarrow> l
               | None \<Rightarrow> c) s"

section \<open>middleware: responses\<close>

text \<open>
  A response as the handler leaves it: the status code, the header map of the
  \<^verbatim>\<open>ResponseWriter\<close> (it arrives holding what the CORS wrapper has set) and the body:
  the JSON document given to the encoder, or the bytes written.
\<close>

datatype body = JSONBody json | RawBody string

record response =
  status :: int
  header :: "string \<rightharpoonup> string list"
  body :: body

definition Header_Set :: "(string \<rightharpoonup> string list) \<Rightarrow> string \<Rightarrow> string \<Rightarrow> (string \<rightharpoonup> string list)" where
  "Header_Set h key v = h(key \<mapsto> [v])"



text \<open>
  What a handler does with the \<^verbatim>\<open>ResponseWriter\<close>: it writes a response, or it leaves
  the answer to \<^verbatim>\<open>http.Error\<close> with a message and a status code, or it panics.
\<close>

datatype served = Responded response | HttpError string int | Panicked

section \<open>middleware: the token filter handler\<close>

definition writeErrorResponse ::
  "(string \<rightharpoonup> string list) \<Rightarrow> int \<Rightarrow> string \<Rightarrow> string \<Rightarrow> response" where
  "writeErrorResponse h statusCode message detail =
     \<lparr>status = statusCode,
      header = Header_Set h ''Content-Type'' ''application/json'',
      body = JSONBody (JObject [(''error'', JString message), (''message'', JString detail)])\<rparr>"

definition handleError ::
  "(string \<Rightarrow> string) \<Rightarrow> (string \<rightharpoonup> string list) \<Rightarrow> error \<Rightarrow> response" where
  "handleError toLower h err =
     (if IsNetworkError toLower err then
        writeErrorResponse h 502 ''Backend API unreachable'' (Error err)
      else if IsAPIError err then
        writeErrorResponse h 502 ''Backend API error'' (Error err)
      else writeErrorResponse h 500 ''Internal server error'' (Error err))"

text \<open>
  \<^verbatim>\<open>ServeHTTP\<close> of the token filter. \<open>tokens\<close> is what \<^verbatim>\<open>GetTokens\<close> returned, the
  response being a pointer; reading the items of a \<^verbatim>\<open>nil\<close> response for the log line
  panics. \<open>encodeErr\<close> is the error of writing the document to the client.
\<close>

definition ServeHTTP ::
  "(string \<Rightarrow> string) \<Rightarrow> 'w TokenWhitelist_scheme \<Rightarrow> (string \<rightharpoonup> string list)
     \<Rightarrow> error + TokenResponse option \<Rightarrow> error option \<Rightarrow> served" where
  "ServeHTTP toLower whitelist h tokens encodeErr =
     (let h1 = Header_Set h ''Content-Type'' ''application/json'' in
      case tokens of
        Inl err \<Rightarrow> Responded (handleError toLower h1 err)
      | Inr None \<Rightarrow> Panicked
      | Inr (Some tokenResponse) \<Rightarrow>
          (case encodeErr of
             Some err \<Rightarrow> HttpError ''Internal server error'' 500
           | None \<Rightarrow>
               Responded \<lparr>status = 200, header = h1,
                 body = JSONBody
                   (marshal_TokenResponse (filterTokens whitelist (Some tokenResponse)))\<rparr>))"

section \<open>middleware: the standard proxy handler\<close>









section \<open>main: the router\<close>

datatype handler = tokenHandler | standardHandler

definition isTokensEndpoint :: "string \<Rightarrow> bool" where
  "isTokensEndpoint path =
     (let normalizedPath = TrimSuffix path ''/'' in
      normalizedPath = ''/api/v2/tokens'' \<or> HasPrefix path ''/api/v2/tokens?'')"

definition routeHandler :: "string \<Rightarrow> handler" where
  "routeHandler path = (if isTokensEndpoint path then tokenHandler else standardHandler)"

text \<open>The claim's words, for comparison: the path with a trailing slash stripped.\<close>

definition strip_trailing_slash :: "string \<Rightarrow> string" where
  "strip_trailing_slash p = (if p \<noteq> [] \<and> last p = CHR ''/'' then butlast p else p)"

section \<open>Concrete surroundings\<close>

text \<open>
  Instances of the parameters, used where a statement is run on a concrete input: a
  decoder that knows a few documents, a backend that answers or fails, a file system
  with a missing file and a truncated one.
\<close>

definition sample_unmarshal :: "string \<Rightarrow> error + tempExt" where
  \<open>sample_unmarshal data =
     (if data = ''{"tokens":[{"address":"0xA"},{"address":"0xB","icon_url":"b.png"}]}'' then
        Inr \<lparr>temp_Addresses = None,
             temp_Tokens = Some [\<lparr>wt_Address = ''0xA'', wt_IconURL = None\<rparr>,
                                 \<lparr>wt_Address = ''0xB'', wt_IconURL = Some ''b.png''\<rparr>]\<rparr>
      else if data = ''{"addresses":["0xC","0xD"]}'' then
        Inr \<lparr>temp_Addresses = Some [''0xC'', ''0xD''], temp_Tokens = None\<rparr>
      else if data = ''{}'' then Inr \<lparr>temp_Addresses = None, temp_Tokens = None\<rparr>
      else Inl (ErrorString ''unexpected end of JSON input''))\<close>

definition sample_unmarshal_addresses :: "string \<Rightarrow> error + temp" where
  "sample_unmarshal_addresses data =
     (case sample_unmarshal data of
        Inl err \<Rightarrow> Inl err
      | Inr t \<Rightarrow> Inr \<lparr>temp_Addresses = temp_Addresses t\<rparr>)"

definition sample_unmarshal_response :: "string \<Rightarrow> error + TokenResponse" where
  \<open>sample_unmarshal_response data =
     (if data = ''{"items":[]}'' then Inr \<lparr>Items = Some []\<rparr>
      else if data = ''{}'' then Inr \<lparr>Items = None\<rparr>
      else Inl (ErrorString ''invalid character 'i' looking for beginning of value''))\<close>

definition sample_files :: file_system where
  \<open>sample_files =
     \<lparr>IsNotExist = (\<lambda>name. name = ''missing.json''),
      ReadFile = (\<lambda>name. if name = ''broken.json'' then Inr ''{"addresses": [''
                          else Inl (ErrorString ''read: permission denied''))\<rparr>\<close>

definition request_ok :: "string \<Rightarrow> error option" where
  "request_ok url = None"

definition request_fails :: "error \<Rightarrow> string \<Rightarrow> error option" where
  "request_fails err url = Some err"

definition backend_answers ::
  "int \<Rightarrow> string \<Rightarrow> string \<Rightarrow> string \<Rightarrow> error + backend_response" where
  "backend_answers code st bodyBytes url =
     Inr \<lparr>StatusCode = code, Status = st, Header = [], Body = (bodyBytes, None)\<rparr>"

definition backend_fails :: "error \<Rightarrow> string \<Rightarrow> error + backend_response" where
  "backend_fails err url = Inl err"

definition backend_breaks ::
  "int \<Rightarrow> string \<Rightarrow> string \<Rightarrow> error \<Rightarrow> string \<Rightarrow> error + backend_response" where
  "backend_breaks code st bodyBytes err url =
     Inr \<lparr>StatusCode = code, Status = st, Header = [], Body = (bodyBytes, Some err)\<rparr>"

text \<open>The text of the error a call returned, if it returned one.\<close>

definition error_text :: "error + 'a \<Rightarrow> string option" where
  "error_text r = (case r of Inl err \<Rightarrow> Some (Error err) | Inr v \<Rightarrow> None)"

section \<open>Facts about the whitelist and the filter\<close>

lemma Contains_loop_iff: "Contains_loop xs a \<longleftrightarrow> a \<in> set xs"
  by (induction xs) auto

lemma Contains_iff: "Contains tw a \<longleftrightarrow> a \<in> set (elems (Addresses tw))"
  by (simp add: Contains_def Contains_loop_iff)

lemma filterTokens_loop_Some:
  "filterTokens_loop tw ts (Some acc) =
     Some (acc @ whitelisted_items (elems (Addresses tw)) ts)"
  by (induction ts arbitrary: acc)
     (simp_all add: whitelisted_items_def Contains_iff go_append_def elems_def)

lemma filterTokens_loop_None:
  "filterTokens_loop tw ts None =
     (if whitelisted_items (elems (Addresses tw)) ts = [] then None
      else Some (whitelisted_items (elems (Addresses tw)) ts))"
  by (induction ts)
     (simp_all add: whitelisted_items_def Contains_iff go_append_def elems_def
        filterTokens_loop_Some)

section \<open>The token filter\<close>

text \<open>
  C1, as amended. The token filter handler writes the document of what \<^verbatim>\<open>filterTokens\<close>
  returns. When the whitelist is not empty, \<^verbatim>\<open>filterTokens\<close> returns exactly the items
  of the response whose address is equal, byte for byte, to a member of the whitelist,
  in the order of the response; when at least one item matches, the document written
  is the array of these items under \<^verbatim>\<open>items\<close>; and when the response has no item, the
  document written is \<^verbatim>\<open>{"items":[]}\<close>, whatever the whitelist.
\<close>

theorem filterTokens_nonempty_whitelist:
  "ServeHTTP toLower tw h (Inr (Some T)) None =
     Responded \<lparr>status = 200, header = h(''Content-Type'' \<mapsto> [''application/json'']),
       body = JSONBody (marshal_TokenResponse (filterTokens tw (Some T)))\<rparr>
   \<and> (0 < Size tw \<longrightarrow>
      elems (Items (filterTokens tw (Some T))) =
        whitelisted_items (elems (Addresses tw)) (elems (Items T)))
   \<and> (0 < Size tw \<and> whitelisted_items (elems (Addresses tw)) (elems (Items T)) \<noteq> [] \<longrightarrow>
      marshal_TokenResponse (filterTokens tw (Some T)) =
        JObject [(''items'', JArray (map marshal_Token
           (whitelisted_items (elems (Addresses tw)) (elems (Items T)))))])
   \<and> (elems (Items T) = [] \<longrightarrow>
      marshal_TokenResponse (filterTokens tw (Some T)) = JObject [(''items'', JArray [])])"
proof -
  have "ServeHTTP toLower tw h (Inr (Some T)) None =
     Responded \<lparr>status = 200, header = h(''Content-Type'' \<mapsto> [''application/json'']),
       body = JSONBody (marshal_TokenResponse (filterTokens tw (Some T)))\<rparr>"
    by (simp add: ServeHTTP_def Header_Set_def)
  moreover have "0 < Size tw \<longrightarrow>
      elems (Items (filterTokens tw (Some T))) =
        whitelisted_items (elems (Addresses tw)) (elems (Items T))"
    by (cases "Items T")
       (auto simp: filterTokens_def len_def elems_def Size_def filterTokens_loop_None
          whitelisted_items_def)
  moreover have "0 < Size tw \<and> whitelisted_items (elems (Addresses tw)) (elems (Items T)) \<noteq> [] \<longrightarrow>
      marshal_TokenResponse (filterTokens tw (Some T)) =
        JObject [(''items'', JArray (map marshal_Token
           (whitelisted_items (elems (Addresses tw)) (elems (Items T)))))]"
    by (cases "Items T")
       (auto simp: filterTokens_def len_def elems_def Size_def filterTokens_loop_None
          marshal_TokenResponse_def whitelisted_items_def)
  moreover have "elems (Items T) = [] \<longrightarrow>
      marshal_TokenResponse (filterTokens tw (Some T)) = JObject [(''items'', JArray [])]"
    by (cases "Items T")
       (auto simp: filterTokens_def len_def elems_def marshal_TokenResponse_def)
  ultimately show ?thesis by blast
qed

theorem filterTokens_nonempty_whitelist_witness:
  "0 < Size \<lparr>Addresses = Some [''0xA'', ''0xC'']\<rparr>
   \<and> elems (Items (filterTokens \<lparr>Addresses = Some [''0xA'', ''0xC'']\<rparr>
        (Some \<lparr>Items = Some [sample_token ''0xA'', sample_token ''0xB'', sample_token ''0xC'']\<rparr>)))
      = [sample_token ''0xA'', sample_token ''0xC'']
   \<and> marshal_TokenResponse (filterTokens \<lparr>Addresses = Some [''0xA'', ''0xC'']\<rparr>
        (Some \<lparr>Items = Some []\<rparr>)) = JObject [(''items'', JArray [])]"
  using filterTokens_nonempty_whitelist [of ascii_lower "\<lparr>Addresses = Some [''0xA'', ''0xC'']\<rparr>"
      Map.empty
      "\<lparr>Items = Some [sample_token ''0xA'', sample_token ''0xB'', sample_token ''0xC'']\<rparr>"]
    filterTokens_nonempty_whitelist [of ascii_lower "\<lparr>Addresses = Some [''0xA'', ''0xC'']\<rparr>"
      Map.empty "\<lparr>Items = Some []\<rparr>"]
  by (simp add: Size_def len_def elems_def whitelisted_items_def sample_token_def)

text \<open>
  C1 as it is stated fails twice. With an empty whitelist the one item of the response
  comes back, though no address is a member of the whitelist; and with the whitelist
  \<^verbatim>\<open>["0x9999"]\<close>, which matches nothing, \<open>filteredTokens\<close> is still the \<^verbatim>\<open>nil\<close> slice it
  was declared as, so that the document written is \<^verbatim>\<open>{"items":null}\<close>.
\<close>

theorem filterTokens_counterexample:
  "elems (Items (filterTokens NewTokenWhitelist (Some \<lparr>Items = Some [sample_token ''0x1111'']\<rparr>)))
     \<noteq> whitelisted_items (elems (Addresses NewTokenWhitelist)) [sample_token ''0x1111'']
   \<and> marshal_TokenResponse
        (filterTokens \<lparr>Addresses = Some [''0x9999'']\<rparr>
           (Some \<lparr>Items = Some [sample_token ''0x1111'']\<rparr>))
       = JObject [(''items'', JNull)]"
  by (simp add: filterTokens_def NewTokenWhitelist_def len_def elems_def Size_def
        whitelisted_items_def marshal_TokenResponse_def Contains_def go_append_def
        sample_token_def)

text \<open>
  C2, as amended. When \<^verbatim>\<open>Size()\<close> is 0, \<^verbatim>\<open>filterTokens\<close> returns the token list of the
  response unchanged, nothing filtered out: the same items in the same order. The value
  returned is the response itself whenever it has an item; a response without items is
  answered with the empty list, also when its \<open>Items\<close> were \<^verbatim>\<open>nil\<close>.
\<close>

theorem filterTokens_empty_whitelist:
  "Size tw = 0 \<Longrightarrow>
     elems (Items (filterTokens tw (Some T))) = elems (Items T)
     \<and> (elems (Items T) \<noteq> [] \<longrightarrow> filterTokens tw (Some T) = T)
     \<and> (elems (Items T) = [] \<longrightarrow> filterTokens tw (Some T) = \<lparr>Items = Some []\<rparr>)"
  by (cases "Items T") (auto simp: filterTokens_def len_def elems_def)

theorem filterTokens_empty_whitelist_witness:
  "Size NewTokenWhitelist = 0
   \<and> filterTokens NewTokenWhitelist
        (Some \<lparr>Items = Some [sample_token ''0x1111'', sample_token ''0x2222'']\<rparr>)
      = \<lparr>Items = Some [sample_token ''0x1111'', sample_token ''0x2222'']\<rparr>"
proof -
  have h: "Size NewTokenWhitelist = 0"
    by (simp add: Size_def NewTokenWhitelist_def len_def)
  show ?thesis
    using h filterTokens_empty_whitelist [OF h,
        of "\<lparr>Items = Some [sample_token ''0x1111'', sample_token ''0x2222'']\<rparr>"]
    by (simp add: elems_def)
qed

text \<open>
  C2 as it is stated fails on a response whose \<open>Items\<close> are \<^verbatim>\<open>nil\<close> (the backend sent
  \<^verbatim>\<open>{}\<close> or \<^verbatim>\<open>{"items":null}\<close>): the guard for responses without items answers before
  the whitelist is looked at, and what comes back is not the response, whose document is
  \<^verbatim>\<open>{"items":null}\<close>, but the empty list, whose document is \<^verbatim>\<open>{"items":[]}\<close>.
\<close>

theorem filterTokens_empty_whitelist_counterexample:
  "Size NewTokenWhitelist = 0
   \<and> filterTokens NewTokenWhitelist (Some \<lparr>Items = None\<rparr>) \<noteq> \<lparr>Items = None\<rparr>
   \<and> marshal_TokenResponse \<lparr>Items = None\<rparr> = JObject [(''items'', JNull)]
   \<and> marshal_TokenResponse (filterTokens NewTokenWhitelist (Some \<lparr>Items = None\<rparr>))
       = JObject [(''items'', JArray [])]"
  by (simp add: filterTokens_def NewTokenWhitelist_def Size_def len_def
        marshal_TokenResponse_def)

section \<open>The router\<close>

lemma HasPrefix_iff: "HasPrefix s pre \<longleftrightarrow> (\<exists>q. s = pre @ q)"
proof
  assume "HasPrefix s pre"
  then have "s = pre @ drop (length pre) s"
    by (metis HasPrefix_def append_take_drop_id)
  then show "\<exists>q. s = pre @ q" ..
next
  assume "\<exists>q. s = pre @ q"
  then show "HasPrefix s pre" by (auto simp: HasPrefix_def)
qed

lemma TrimSuffix_slash: "TrimSuffix p ''/'' = strip_trailing_slash p"
proof (cases p rule: rev_cases)
  case Nil
  then show ?thesis by (simp add: TrimSuffix_def HasSuffix_def strip_trailing_slash_def)
next
  case (snoc ys y)
  then show ?thesis by (simp add: TrimSuffix_def HasSuffix_def strip_trailing_slash_def)
qed

text \<open>
  C3. A path goes to the token filter handler if and only if, with a trailing slash
  stripped, it is \<^verbatim>\<open>/api/v2/tokens\<close>, or it starts with \<^verbatim>\<open>/api/v2/tokens?\<close>; every other
  path goes to the standard proxy handler, and \<^verbatim>\<open>/api/v2/tokens/123\<close> is one of them.
\<close>

theorem routeHandler_dispatch:
  "(routeHandler p = tokenHandler \<longleftrightarrow>
      strip_trailing_slash p = ''/api/v2/tokens'' \<or> (\<exists>q. p = ''/api/v2/tokens?'' @ q))
   \<and> (routeHandler p \<noteq> tokenHandler \<longrightarrow> routeHandler p = standardHandler)
   \<and> routeHandler ''/api/v2/tokens/123'' = standardHandler"
proof -
  have a: "isTokensEndpoint p \<longleftrightarrow>
      strip_trailing_slash p = ''/api/v2/tokens'' \<or> (\<exists>q. p = ''/api/v2/tokens?'' @ q)"
    unfolding isTokensEndpoint_def Let_def TrimSuffix_slash HasPrefix_iff ..
  have b: "\<not> isTokensEndpoint ''/api/v2/tokens/123''"
    by (simp add: isTokensEndpoint_def TrimSuffix_def HasSuffix_def HasPrefix_def)
  show ?thesis using a b by (simp add: routeHandler_def)
qed

theorem routeHandler_dispatch_witness:
  "routeHandler ''/api/v2/tokens/'' = tokenHandler
   \<and> routeHandler ''/api/v2/tokens?limit=10'' = tokenHandler
   \<and> routeHandler ''/api/v2/accounts/xyz'' = standardHandler"
proof -
  have 1: "strip_trailing_slash ''/api/v2/tokens/'' = ''/api/v2/tokens''"
    by (simp add: strip_trailing_slash_def)
  have 2: "\<exists>q. ''/api/v2/tokens?limit=10'' = ''/api/v2/tokens?'' @ q" by simp
  have 3: "\<not> (strip_trailing_slash ''/api/v2/accounts/xyz'' = ''/api/v2/tokens''
      \<or> (\<exists>q. ''/api/v2/accounts/xyz'' = ''/api/v2/tokens?'' @ q))"
    by (simp add: strip_trailing_slash_def)
  show ?thesis
    using routeHandler_dispatch [of "''/api/v2/tokens/''"]
      routeHandler_dispatch [of "''/api/v2/tokens?limit=10''"]
      routeHandler_dispatch [of "''/api/v2/accounts/xyz''"] 1 2 3
    by blast
qed


section \<open>The token filter handler's errors\<close>

text \<open>
  C4. For every error that \<^verbatim>\<open>GetTokens\<close> returns to the token filter handler: if
  \<^verbatim>\<open>IsNetworkError\<close> accepts it the response is 502 with the document
  \<^verbatim>\<open>{"error":"Backend API unreachable","message":text}\<close>; else if \<^verbatim>\<open>IsAPIError\<close> accepts it,
  502 with \<^verbatim>\<open>"Backend API error"\<close>; otherwise 500 with \<^verbatim>\<open>"Internal server error"\<close>; the
  message is the text of the error; and on each path the \<^verbatim>\<open>Content-Type\<close> is
  \<^verbatim>\<open>application/json\<close> and the body is a JSON document.
\<close>

theorem handleError_responses:
  "(IsNetworkError toLower err \<longrightarrow>
      handleError toLower h err =
        \<lparr>status = 502, header = h(''Content-Type'' \<mapsto> [''application/json'']),
         body = JSONBody (JObject [(''error'', JString ''Backend API unreachable''),
                                   (''message'', JString (Error err))])\<rparr>)
   \<and> (\<not> IsNetworkError toLower err \<and> IsAPIError err \<longrightarrow>
      handleError toLower h err =
        \<lparr>status = 502, header = h(''Content-Type'' \<mapsto> [''application/json'']),
         body = JSONBody (JObject [(''error'', JString ''Backend API error''),
                                   (''message'', JString (Error err))])\<rparr>)
   \<and> (\<not> IsNetworkError toLower err \<and> \<not> IsAPIError err \<longrightarrow>
      handleError toLower h err =
        \<lparr>status = 500, header = h(''Content-Type'' \<mapsto> [''application/json'']),
         body = JSONBody (JObject [(''error'', JString ''Internal server error''),
                                   (''message'', JString (Error err))])\<rparr>)
   \<and> header (handleError toLower h err) ''Content-Type'' = Some [''application/json'']
   \<and> (\<exists>doc. body (handleError toLower h err) = JSONBody doc)
   \<and> ServeHTTP toLower tw h (Inl err) enc =
        Responded (handleError toLower (h(''Content-Type'' \<mapsto> [''application/json''])) err)"
  by (simp add: handleError_def writeErrorResponse_def Header_Set_def ServeHTTP_def)

theorem handleError_responses_witness:
  "IsNetworkError ascii_lower
     (NetworkError ''get_tokens'' ''http://backend/api/v2/tokens''
        (LibError UrlError ''dial tcp 10.0.0.1:80: connect: connection refused'' None))
   \<and> status (handleError ascii_lower Map.empty
        (NetworkError ''get_tokens'' ''http://backend/api/v2/tokens''
           (LibError UrlError ''dial tcp 10.0.0.1:80: connect: connection refused'' None))) = 502
   \<and> \<not> IsNetworkError ascii_lower (APIError 500 ''500 Internal Server Error'' ''http://backend/api/v2/tokens'')
   \<and> IsAPIError (APIError 500 ''500 Internal Server Error'' ''http://backend/api/v2/tokens'')
   \<and> handleError ascii_lower Map.empty
        (APIError 500 ''500 Internal Server Error'' ''http://backend/api/v2/tokens'') =
        \<lparr>status = 502, header = [''Content-Type'' \<mapsto> [''application/json'']],
         body = JSONBody (JObject [(''error'', JString ''Backend API error''),
           (''message'', JString ''API error: 500 Internal Server Error (500) from http://backend/api/v2/tokens'')])\<rparr>
   \<and> \<not> IsNetworkError ascii_lower (ErrorString ''Some Failure'')
   \<and> \<not> IsAPIError (ErrorString ''Some Failure'')
   \<and> handleError ascii_lower Map.empty (ErrorString ''Some Failure'') =
        \<lparr>status = 500, header = [''Content-Type'' \<mapsto> [''application/json'']],
         body = JSONBody (JObject [(''error'', JString ''Internal server error''),
           (''message'', JString ''Some Failure'')])\<rparr>"
proof -
  let ?n = "NetworkError ''get_tokens'' ''http://backend/api/v2/tokens''
        (LibError UrlError ''dial tcp 10.0.0.1:80: connect: connection refused'' None)"
  let ?a = "APIError 500 ''500 Internal Server Error'' ''http://backend/api/v2/tokens''"
  let ?o = "ErrorString ''Some Failure''"
  have n: "IsNetworkError ascii_lower ?n" by (simp add: IsNetworkError_def)
  have a1: "\<not> IsNetworkError ascii_lower ?a"
    by (simp add: IsNetworkError_def networkKeywords_def ascii_lower_def HasPrefix_def itoa_def)
  have a2: "IsAPIError ?a" by (simp add: IsAPIError_def)
  have o1: "\<not> IsNetworkError ascii_lower ?o"
    by (simp add: IsNetworkError_def networkKeywords_def ascii_lower_def HasPrefix_def)
  have o2: "\<not> IsAPIError ?o" by (simp add: IsAPIError_def)
  have t: "Error ?a = ''API error: 500 Internal Server Error (500) from http://backend/api/v2/tokens''"
    by (simp add: itoa_def)
  show ?thesis
    using n a1 a2 o1 o2 t handleError_responses [of ascii_lower ?n Map.empty NewTokenWhitelist None]
      handleError_responses [of ascii_lower ?a Map.empty NewTokenWhitelist None]
      handleError_responses [of ascii_lower ?o Map.empty NewTokenWhitelist None]
    by simp
qed

section \<open>Loading the whitelist\<close>

lemma LoadFromJSON_addresses_only:
  "unmarshal data = Inr t \<Longrightarrow>
     LoadFromJSON unmarshal tw data = (None, tw\<lparr>Addresses := Some (elems (temp_Addresses t))\<rparr>)"
  by (cases "temp_Addresses t") (simp_all add: LoadFromJSON_def elems_def)

text \<open>
  C5, as amended. The extended \<^verbatim>\<open>LoadFromJSON\<close> accepts both shapes: whenever the
  document decodes, the load succeeds; when the decoded \<open>tokens\<close> array has at least
  one element the addresses are those of the tokens, one per token and in order;
  otherwise the \<open>addresses\<close> array is used; and when neither key is present the
  whitelist becomes empty. The \<^verbatim>\<open>LoadFromJSON\<close> of \<^verbatim>\<open>models/token.go\<close> decodes the
  \<open>addresses\<close> array only: whenever the document decodes, the load succeeds and the
  whitelist is that array, empty when the key is absent, whatever \<open>tokens\<close> the
  document holds.
\<close>

theorem LoadFromJSON_shapes:
  "(unmarshalExt data = Inr t \<longrightarrow>
      fst (LoadFromJSONExt unmarshalExt twx data) = None
      \<and> (\<forall>toks. temp_Tokens t = Some toks \<and> toks \<noteq> [] \<longrightarrow>
            Addresses (snd (LoadFromJSONExt unmarshalExt twx data)) = Some (map wt_Address toks))
      \<and> (elems (temp_Tokens t) = [] \<longrightarrow>
            Addresses (snd (LoadFromJSONExt unmarshalExt twx data))
              = Some (elems (temp_Addresses t)))
      \<and> (temp_Tokens t = None \<and> temp_Addresses t = None \<longrightarrow>
            Addresses (snd (LoadFromJSONExt unmarshalExt twx data)) = Some []
            \<and> Size (snd (LoadFromJSONExt unmarshalExt twx data)) = 0))
   \<and> (unmarshal data = Inr u \<longrightarrow>
      LoadFromJSON unmarshal tw data
        = (None, tw\<lparr>Addresses := Some (elems (temp_Addresses u))\<rparr>))"
proof -
  have ext: "unmarshalExt data = Inr t \<longrightarrow>
      fst (LoadFromJSONExt unmarshalExt twx data) = None
      \<and> (\<forall>toks. temp_Tokens t = Some toks \<and> toks \<noteq> [] \<longrightarrow>
            Addresses (snd (LoadFromJSONExt unmarshalExt twx data)) = Some (map wt_Address toks))
      \<and> (elems (temp_Tokens t) = [] \<longrightarrow>
            Addresses (snd (LoadFromJSONExt unmarshalExt twx data))
              = Some (elems (temp_Addresses t)))
      \<and> (temp_Tokens t = None \<and> temp_Addresses t = None \<longrightarrow>
            Addresses (snd (LoadFromJSONExt unmarshalExt twx data)) = Some []
            \<and> Size (snd (LoadFromJSONExt unmarshalExt twx data)) = 0)"
    by (cases "temp_Tokens t")
       (auto simp: LoadFromJSONExt_def len_def elems_def Size_def)
  have legacy: "unmarshal data = Inr u \<longrightarrow>
      LoadFromJSON unmarshal tw data
        = (None, tw\<lparr>Addresses := Some (elems (temp_Addresses u))\<rparr>)"
    by (simp add: LoadFromJSON_addresses_only)
  show ?thesis using ext legacy by blast
qed

theorem LoadFromJSON_shapes_witness:
  \<open>Addresses (snd (LoadFromJSONExt sample_unmarshal NewTokenWhitelistExt
       ''{"tokens":[{"address":"0xA"},{"address":"0xB","icon_url":"b.png"}]}'')) = Some [''0xA'', ''0xB'']
   \<and> Addresses (snd (LoadFromJSONExt sample_unmarshal NewTokenWhitelistExt
       ''{"addresses":["0xC","0xD"]}'')) = Some [''0xC'', ''0xD'']
   \<and> LoadFromJSONExt sample_unmarshal \<lparr>Addresses = Some [''0xE''], Tokens = None\<rparr> ''{}''
       = (None, \<lparr>Addresses = Some [], Tokens = Some []\<rparr>)
   \<and> LoadFromJSON sample_unmarshal_addresses \<lparr>Addresses = Some [''0xE'']\<rparr>
       ''{"addresses":["0xC","0xD"]}'' = (None, \<lparr>Addresses = Some [''0xC'', ''0xD'']\<rparr>)\<close>
proof -
  let ?d1 = \<open>''{"tokens":[{"address":"0xA"},{"address":"0xB","icon_url":"b.png"}]}''\<close>
  let ?t1 = "\<lparr>temp_Addresses = None,
             temp_Tokens = Some [\<lparr>wt_Address = ''0xA'', wt_IconURL = None\<rparr>,
                                 \<lparr>wt_Address = ''0xB'', wt_IconURL = Some ''b.png''\<rparr>]\<rparr>"
  let ?d2 = \<open>''{"addresses":["0xC","0xD"]}''\<close>
  let ?t2 = "\<lparr>temp_Addresses = Some [''0xC'', ''0xD''], temp_Tokens = None\<rparr>"
  let ?t3 = "\<lparr>temp_Addresses = None, temp_Tokens = None\<rparr> :: tempExt"
  let ?u1 = "\<lparr>temp_Addresses = None\<rparr> :: temp"
  let ?u2 = "\<lparr>temp_Addresses = Some [''0xC'', ''0xD'']\<rparr>"
  let ?wx = "\<lparr>Addresses = Some [''0xE''], Tokens = None\<rparr>"
  let ?w = "\<lparr>Addresses = Some [''0xE'']\<rparr>"
  have 1: "sample_unmarshal ?d1 = Inr ?t1" by (simp add: sample_unmarshal_def)
  have 2: "sample_unmarshal ?d2 = Inr ?t2" by (simp add: sample_unmarshal_def)
  have 3: "sample_unmarshal ''{}'' = Inr ?t3" by (simp add: sample_unmarshal_def)
  have 4: "Tokens (snd (LoadFromJSONExt sample_unmarshal ?wx ''{}'')) = Some []"
    by (simp add: LoadFromJSONExt_def 3)
  have 5: "sample_unmarshal_addresses ?d1 = Inr ?u1"
    by (simp add: sample_unmarshal_addresses_def 1)
  have 6: "sample_unmarshal_addresses ?d2 = Inr ?u2"
    by (simp add: sample_unmarshal_addresses_def 2)
  have 7: "sample_unmarshal_addresses ''{}'' = Inr ?u1"
    by (simp add: sample_unmarshal_addresses_def 3)
  note inst = LoadFromJSON_shapes [where unmarshalExt = sample_unmarshal
      and unmarshal = sample_unmarshal_addresses and tw = ?w]
  show ?thesis
    using 1 2 3 4 5 6 7
      inst [where data = ?d1 and t = ?t1 and u = ?u1 and twx = NewTokenWhitelistExt]
      inst [where data = ?d2 and t = ?t2 and u = ?u2 and twx = NewTokenWhitelistExt]
      inst [where data = "''{}''" and t = ?t3 and u = ?u1 and twx = ?wx]
    by (simp add: elems_def prod_eq_iff)
qed

text \<open>
  C5 as it is stated fails on the \<^verbatim>\<open>LoadFromJSON\<close> of \<^verbatim>\<open>models/token.go\<close>: a document
  whose \<open>tokens\<close> array has two elements, decoded into a struct that has the field
  \<open>Addresses\<close> only, loads with no error as an empty whitelist, where the extended
  definition derives the two addresses.
\<close>

theorem LoadFromJSON_counterexample:
  \<open>LoadFromJSON sample_unmarshal_addresses NewTokenWhitelist
       ''{"tokens":[{"address":"0xA"},{"address":"0xB","icon_url":"b.png"}]}''
     = (None, \<lparr>Addresses = Some []\<rparr>)
   \<and> Addresses (snd (LoadFromJSONExt sample_unmarshal NewTokenWhitelistExt
       ''{"tokens":[{"address":"0xA"},{"address":"0xB","icon_url":"b.png"}]}''))
     = Some [''0xA'', ''0xB'']\<close>
  by (simp add: LoadFromJSON_def LoadFromJSONExt_def sample_unmarshal_addresses_def
        sample_unmarshal_def NewTokenWhitelist_def NewTokenWhitelistExt_def len_def elems_def)

text \<open>
  C6. When the file does not exist, \<^verbatim>\<open>LoadFromFile\<close> returns no error and the whitelist
  is as it was; when the file exists and can be read but its contents do not decode,
  \<^verbatim>\<open>LoadFromFile\<close> returns an error and the whitelist is as it was. Both definitions of
  the whitelist behave so.
\<close>

theorem LoadFromFile_failures:
  "(IsNotExist fs p \<longrightarrow> LoadFromFile unmarshal fs tw p = (None, tw))
   \<and> (\<not> IsNotExist fs p \<and> ReadFile fs p = Inr data \<and> unmarshal data = Inl e \<longrightarrow>
        LoadFromFile unmarshal fs tw p =
          (Some (Errorf (''failed to parse whitelist file '' @ p @ '': '') e), tw))
   \<and> (IsNotExist fs p \<longrightarrow> LoadFromFileExt unmarshalExt fs twx p = (None, twx))
   \<and> (\<not> IsNotExist fs p \<and> ReadFile fs p = Inr data \<and> unmarshalExt data = Inl e \<longrightarrow>
        LoadFromFileExt unmarshalExt fs twx p =
          (Some (Errorf (''failed to parse whitelist file '' @ p @ '': '') e), twx))"
  by (simp add: LoadFromFile_def LoadFromFileExt_def LoadFromJSON_def LoadFromJSONExt_def)

theorem LoadFromFile_failures_witness:
  \<open>LoadFromFile sample_unmarshal_addresses sample_files \<lparr>Addresses = Some [''0xA'']\<rparr>
      ''missing.json'' = (None, \<lparr>Addresses = Some [''0xA'']\<rparr>)
   \<and> LoadFromFile sample_unmarshal_addresses sample_files \<lparr>Addresses = Some [''0xA'']\<rparr>
      ''broken.json''
     = (Some (Errorf ''failed to parse whitelist file broken.json: ''
          (ErrorString ''unexpected end of JSON input'')), \<lparr>Addresses = Some [''0xA'']\<rparr>)
   \<and> LoadFromFileExt sample_unmarshal sample_files \<lparr>Addresses = Some [''0xA''], Tokens = None\<rparr>
      ''broken.json''
     = (Some (Errorf ''failed to parse whitelist file broken.json: ''
          (ErrorString ''unexpected end of JSON input'')),
        \<lparr>Addresses = Some [''0xA''], Tokens = None\<rparr>)\<close>
proof -
  let ?e = "ErrorString ''unexpected end of JSON input''"
  let ?w = "\<lparr>Addresses = Some [''0xA'']\<rparr>"
  let ?x = "\<lparr>Addresses = Some [''0xA''], Tokens = None\<rparr>"
  have 1: "IsNotExist sample_files ''missing.json''" by (simp add: sample_files_def)
  have 2: "\<not> IsNotExist sample_files ''broken.json''" by (simp add: sample_files_def)
  have 3: \<open>ReadFile sample_files ''broken.json'' = Inr ''{"addresses": [''\<close>
    by (simp add: sample_files_def)
  have 4: \<open>sample_unmarshal ''{"addresses": [''  = Inl ?e\<close>
    by (simp add: sample_unmarshal_def)
  have 5: \<open>sample_unmarshal_addresses ''{"addresses": [''  = Inl ?e\<close>
    by (simp add: sample_unmarshal_addresses_def 4)
  show ?thesis
    using 1 2 3 4 5
      LoadFromFile_failures [of sample_files "''missing.json''" sample_unmarshal_addresses ?w
        \<open>''{"addresses": [''\<close> ?e sample_unmarshal ?x]
      LoadFromFile_failures [of sample_files "''broken.json''" sample_unmarshal_addresses ?w
        \<open>''{"addresses": [''\<close> ?e sample_unmarshal ?x]
    by simp
qed

section \<open>Fetching the tokens\<close>

text \<open>
  C7, as amended. Every outcome of \<^verbatim>\<open>GetTokens\<close> is one of seven. A request that cannot
  be built yields the error \<^verbatim>\<open>failed to create tokens request: ...\<close>; a transport
  failure yields a \<open>NetworkError\<close>; a status other than 200 yields an \<open>APIError\<close> with
  the status code, the status text and the target URL; a 200 response whose body cannot
  be read yields the error \<^verbatim>\<open>failed to read response body: ...\<close>; a 200 response with an
  empty body yields a parsing error whose text is
  \<^verbatim>\<open>failed to parse tokens response: empty response body\<close>, the error of \<^verbatim>\<open>parseJSON\<close>
  (\<^verbatim>\<open>empty response body\<close>) wrapped; a 200 response whose body does not decode yields a
  parsing error that wraps the decode failure; and a 200 response whose body decodes
  yields the decoded response.
\<close>

theorem GetTokens_outcomes:
  "(newRequest (backendURL @ ''/tokens'') = Some e \<longrightarrow>
      GetTokens unmarshal newRequest send backendURL =
        Inl (Errorf ''failed to create tokens request: '' e))
   \<and> (newRequest (backendURL @ ''/tokens'') = None
        \<and> send (backendURL @ ''/tokens'') = Inl e \<longrightarrow>
      GetTokens unmarshal newRequest send backendURL =
        Inl (NetworkError ''get_tokens'' (backendURL @ ''/tokens'') e)
      \<and> IsNetworkError toLower (NetworkError ''get_tokens'' (backendURL @ ''/tokens'') e))
   \<and> (newRequest (backendURL @ ''/tokens'') = None
        \<and> send (backendURL @ ''/tokens'') = Inr resp \<and> StatusCode resp \<noteq> 200 \<longrightarrow>
      GetTokens unmarshal newRequest send backendURL =
        Inl (APIError (StatusCode resp) (Status resp) (backendURL @ ''/tokens''))
      \<and> IsAPIError (APIError (StatusCode resp) (Status resp) (backendURL @ ''/tokens'')))
   \<and> (newRequest (backendURL @ ''/tokens'') = None
        \<and> send (backendURL @ ''/tokens'') = Inr resp \<and> StatusCode resp = 200
        \<and> snd (Body resp) = Some e \<longrightarrow>
      GetTokens unmarshal newRequest send backendURL =
        Inl (Errorf ''failed to read response body: '' e))
   \<and> (newRequest (backendURL @ ''/tokens'') = None
        \<and> send (backendURL @ ''/tokens'') = Inr resp \<and> StatusCode resp = 200
        \<and> Body resp = ([], None) \<longrightarrow>
      GetTokens unmarshal newRequest send backendURL =
        Inl (Errorf ''failed to parse tokens response: '' (ErrorString ''empty response body''))
      \<and> error_text (GetTokens unmarshal newRequest send backendURL) =
        Some ''failed to parse tokens response: empty response body'')
   \<and> (newRequest (backendURL @ ''/tokens'') = None
        \<and> send (backendURL @ ''/tokens'') = Inr resp \<and> StatusCode resp = 200
        \<and> Body resp = (bodyBytes, None) \<and> bodyBytes \<noteq> [] \<and> unmarshal bodyBytes = Inl d \<longrightarrow>
      GetTokens unmarshal newRequest send backendURL =
        Inl (Errorf ''failed to parse tokens response: '' (Errorf ''invalid JSON: '' d)))
   \<and> (newRequest (backendURL @ ''/tokens'') = None
        \<and> send (backendURL @ ''/tokens'') = Inr resp \<and> StatusCode resp = 200
        \<and> Body resp = (bodyBytes, None) \<and> bodyBytes \<noteq> [] \<and> unmarshal bodyBytes = Inr v \<longrightarrow>
      GetTokens unmarshal newRequest send backendURL = Inr v)
   \<and> ((\<exists>x. GetTokens unmarshal newRequest send backendURL =
              Inl (Errorf ''failed to create tokens request: '' x))
      \<or> (\<exists>x. GetTokens unmarshal newRequest send backendURL =
              Inl (NetworkError ''get_tokens'' (backendURL @ ''/tokens'') x))
      \<or> (\<exists>code st. code \<noteq> 200 \<and> GetTokens unmarshal newRequest send backendURL =
              Inl (APIError code st (backendURL @ ''/tokens'')))
      \<or> (\<exists>x. GetTokens unmarshal newRequest send backendURL =
              Inl (Errorf ''failed to read response body: '' x))
      \<or> GetTokens unmarshal newRequest send backendURL =
              Inl (Errorf ''failed to parse tokens response: ''
                     (ErrorString ''empty response body''))
      \<or> (\<exists>x. GetTokens unmarshal newRequest send backendURL =
              Inl (Errorf ''failed to parse tokens response: '' (Errorf ''invalid JSON: '' x)))
      \<or> (\<exists>x. GetTokens unmarshal newRequest send backendURL = Inr x))"
proof -
  have cases: "(newRequest (backendURL @ ''/tokens'') = Some e \<longrightarrow>
      GetTokens unmarshal newRequest send backendURL =
        Inl (Errorf ''failed to create tokens request: '' e))
   \<and> (newRequest (backendURL @ ''/tokens'') = None
        \<and> send (backendURL @ ''/tokens'') = Inl e \<longrightarrow>
      GetTokens unmarshal newRequest send backendURL =
        Inl (NetworkError ''get_tokens'' (backendURL @ ''/tokens'') e)
      \<and> IsNetworkError toLower (NetworkError ''get_tokens'' (backendURL @ ''/tokens'') e))
   \<and> (newRequest (backendURL @ ''/tokens'') = None
        \<and> send (backendURL @ ''/tokens'') = Inr resp \<and> StatusCode resp \<noteq> 200 \<longrightarrow>
      GetTokens unmarshal newRequest send backendURL =
        Inl (APIError (StatusCode resp) (Status resp) (backendURL @ ''/tokens''))
      \<and> IsAPIError (APIError (StatusCode resp) (Status resp) (backendURL @ ''/tokens'')))
   \<and> (newRequest (backendURL @ ''/tokens'') = None
        \<and> send (backendURL @ ''/tokens'') = Inr resp \<and> StatusCode resp = 200
        \<and> snd (Body resp) = Some e \<longrightarrow>
      GetTokens unmarshal newRequest send backendURL =
        Inl (Errorf ''failed to read response body: '' e))
   \<and> (newRequest (backendURL @ ''/tokens'') = None
        \<and> send (backendURL @ ''/tokens'') = Inr resp \<and> StatusCode resp = 200
        \<and> Body resp = ([], None) \<longrightarrow>
      GetTokens unmarshal newRequest send backendURL =
        Inl (Errorf ''failed to parse tokens response: '' (ErrorString ''empty response body''))
      \<and> error_text (GetTokens unmarshal newRequest send backendURL) =
        Some ''failed to parse tokens response: empty response body'')
   \<and> (newRequest (backendURL @ ''/tokens'') = None
        \<and> send (backendURL @ ''/tokens'') = Inr resp \<and> StatusCode resp = 200
        \<and> Body resp = (bodyBytes, None) \<and> bodyBytes \<noteq> [] \<and> unmarshal bodyBytes = Inl d \<longrightarrow>
      GetTokens unmarshal newRequest send backendURL =
        Inl (Errorf ''failed to parse tokens response: '' (Errorf ''invalid JSON: '' d)))
   \<and> (newRequest (backendURL @ ''/tokens'') = None
        \<and> send (backendURL @ ''/tokens'') = Inr resp \<and> StatusCode resp = 200
        \<and> Body resp = (bodyBytes, None) \<and> bodyBytes \<noteq> [] \<and> unmarshal bodyBytes = Inr v \<longrightarrow>
      GetTokens unmarshal newRequest send backendURL = Inr v)"
    by (simp add: GetTokens_def parseJSON_def IsNetworkError_def IsAPIError_def error_text_def)
  have total: "(\<exists>x. GetTokens unmarshal newRequest send backendURL =
              Inl (Errorf ''failed to create tokens request: '' x))
      \<or> (\<exists>x. GetTokens unmarshal newRequest send backendURL =
              Inl (NetworkError ''get_tokens'' (backendURL @ ''/tokens'') x))
      \<or> (\<exists>code st. code \<noteq> 200 \<and> GetTokens unmarshal newRequest send backendURL =
              Inl (APIError code st (backendURL @ ''/tokens'')))
      \<or> (\<exists>x. GetTokens unmarshal newRequest send backendURL =
              Inl (Errorf ''failed to read response body: '' x))
      \<or> GetTokens unmarshal newRequest send backendURL =
              Inl (Errorf ''failed to parse tokens response: ''
                     (ErrorString ''empty response body''))
      \<or> (\<exists>x. GetTokens unmarshal newRequest send backendURL =
              Inl (Errorf ''failed to parse tokens response: '' (Errorf ''invalid JSON: '' x)))
      \<or> (\<exists>x. GetTokens unmarshal newRequest send backendURL = Inr x)"
    by (auto simp: GetTokens_def parseJSON_def Let_def
          split: option.splits sum.splits)
  show ?thesis using cases total by blast
qed

theorem GetTokens_outcomes_witness:
  \<open>GetTokens sample_unmarshal_response request_ok
      (backend_fails (LibError UrlError ''dial tcp 10.0.0.1:80: connect: connection refused'' None))
      ''http://backend/api/v2''
     = Inl (NetworkError ''get_tokens'' ''http://backend/api/v2/tokens''
         (LibError UrlError ''dial tcp 10.0.0.1:80: connect: connection refused'' None))
   \<and> GetTokens sample_unmarshal_response request_ok
      (backend_answers 503 ''503 Service Unavailable'' ''busy'') ''http://backend/api/v2''
     = Inl (APIError 503 ''503 Service Unavailable'' ''http://backend/api/v2/tokens'')
   \<and> GetTokens sample_unmarshal_response request_ok
      (backend_breaks 200 ''200 OK'' ''{"ite'' (ErrorString ''unexpected EOF''))
      ''http://backend/api/v2''
     = Inl (Errorf ''failed to read response body: '' (ErrorString ''unexpected EOF''))
   \<and> GetTokens sample_unmarshal_response request_ok
      (backend_answers 200 ''200 OK'' []) ''http://backend/api/v2''
     = Inl (Errorf ''failed to parse tokens response: '' (ErrorString ''empty response body''))
   \<and> GetTokens sample_unmarshal_response request_ok
      (backend_answers 200 ''200 OK'' ''invalid json'') ''http://backend/api/v2''
     = Inl (Errorf ''failed to parse tokens response: '' (Errorf ''invalid JSON: ''
         (ErrorString ''invalid character 'i' looking for beginning of value'')))
   \<and> GetTokens sample_unmarshal_response request_ok
      (backend_answers 200 ''200 OK'' ''{"items":[]}'') ''http://backend/api/v2''
     = Inr \<lparr>Items = Some []\<rparr>\<close>
proof -
  let ?u = "''http://backend/api/v2''"
  let ?l = "LibError UrlError ''dial tcp 10.0.0.1:80: connect: connection refused'' None"
  let ?d = \<open>ErrorString ''invalid character 'i' looking for beginning of value''\<close>
  let ?x = "ErrorString ''unexpected EOF''"
  let ?r = "\<lambda>code st b. \<lparr>StatusCode = code, Status = st, Header = [], Body = (b, None)\<rparr>"
  let ?b = \<open>\<lparr>StatusCode = 200, Status = ''200 OK'', Header = [],
              Body = (''{"ite'', Some ?x)\<rparr>\<close>
  have rq: "request_ok (?u @ ''/tokens'') = None" by (simp add: request_ok_def)
  have u1: "sample_unmarshal_response ''invalid json'' = Inl ?d"
    by (simp add: sample_unmarshal_response_def)
  have u2: \<open>sample_unmarshal_response ''{"items":[]}'' = Inr \<lparr>Items = Some []\<rparr>\<close>
    by (simp add: sample_unmarshal_response_def)
  note inst = GetTokens_outcomes [where newRequest = request_ok and backendURL = ?u
      and unmarshal = sample_unmarshal_response and toLower = ascii_lower and d = ?d
      and v = "\<lparr>Items = Some []\<rparr>"]
  have 1: "GetTokens sample_unmarshal_response request_ok (backend_fails ?l) ?u
      = Inl (NetworkError ''get_tokens'' ''http://backend/api/v2/tokens'' ?l)"
    using rq inst [where send = "backend_fails ?l" and e = ?l and resp = "?r 200 ''200 OK'' []"
        and bodyBytes = "[]"]
    by (simp add: backend_fails_def)
  have 2: "GetTokens sample_unmarshal_response request_ok
      (backend_answers 503 ''503 Service Unavailable'' ''busy'') ?u
      = Inl (APIError 503 ''503 Service Unavailable'' ''http://backend/api/v2/tokens'')"
    using rq inst [where send = "backend_answers 503 ''503 Service Unavailable'' ''busy''"
        and resp = "?r 503 ''503 Service Unavailable'' ''busy''" and e = ?l and bodyBytes = "[]"]
    by (simp add: backend_answers_def)
  have 3: \<open>GetTokens sample_unmarshal_response request_ok
      (backend_breaks 200 ''200 OK'' ''{"ite'' ?x) ?u
      = Inl (Errorf ''failed to read response body: '' ?x)\<close>
    using rq inst [where send = \<open>backend_breaks 200 ''200 OK'' ''{"ite'' ?x\<close>
        and resp = ?b and e = ?x and bodyBytes = "[]"]
    by (simp add: backend_breaks_def)
  have 4: "GetTokens sample_unmarshal_response request_ok (backend_answers 200 ''200 OK'' []) ?u
      = Inl (Errorf ''failed to parse tokens response: '' (ErrorString ''empty response body''))"
    using rq inst [where send = "backend_answers 200 ''200 OK'' []"
        and resp = "?r 200 ''200 OK'' []" and e = ?l and bodyBytes = "[]"]
    by (simp add: backend_answers_def)
  have 5: "GetTokens sample_unmarshal_response request_ok
      (backend_answers 200 ''200 OK'' ''invalid json'') ?u
      = Inl (Errorf ''failed to parse tokens response: '' (Errorf ''invalid JSON: '' ?d))"
    using rq u1 inst [where send = "backend_answers 200 ''200 OK'' ''invalid json''"
        and resp = "?r 200 ''200 OK'' ''invalid json''" and bodyBytes = "''invalid json''"
        and e = ?l]
    by (simp add: backend_answers_def)
  have 6: \<open>GetTokens sample_unmarshal_response request_ok
      (backend_answers 200 ''200 OK'' ''{"items":[]}'') ?u = Inr \<lparr>Items = Some []\<rparr>\<close>
    using rq u2 inst [where send = \<open>backend_answers 200 ''200 OK'' ''{"items":[]}''\<close>
        and resp = \<open>?r 200 ''200 OK'' ''{"items":[]}''\<close>
        and bodyBytes = \<open>''{"items":[]}''\<close> and e = ?l]
    by (simp add: backend_answers_def)
  show ?thesis using 1 2 3 4 5 6 by simp
qed

text \<open>
  C7 as it is stated fails on three outcomes. On a 200 response with an empty body the
  text of the error that \<^verbatim>\<open>GetTokens\<close> returns is not \<^verbatim>\<open>empty response body\<close>; a 200
  response whose body breaks off while it is read, and a backend URL from which no
  request can be built, yield errors that are in none of the claim's classes.
\<close>

theorem GetTokens_counterexample:
  \<open>error_text (GetTokens sample_unmarshal_response request_ok (backend_answers 200 ''200 OK'' [])
      ''http://backend/api/v2'') = Some ''failed to parse tokens response: empty response body''
   \<and> error_text (GetTokens sample_unmarshal_response request_ok (backend_answers 200 ''200 OK'' [])
      ''http://backend/api/v2'') \<noteq> Some ''empty response body''
   \<and> GetTokens sample_unmarshal_response request_ok
        (backend_breaks 200 ''200 OK'' ''{"ite'' (ErrorString ''unexpected EOF''))
        ''http://backend/api/v2''
      = Inl (Errorf ''failed to read response body: '' (ErrorString ''unexpected EOF''))
   \<and> GetTokens sample_unmarshal_response
        (request_fails (ErrorString ''invalid character in host name''))
        (backend_answers 200 ''200 OK'' ''{"items":[]}'') ''http://bad host/api/v2''
      = Inl (Errorf ''failed to create tokens request: ''
          (ErrorString ''invalid character in host name''))\<close>
  by (simp add: GetTokens_def parseJSON_def error_text_def request_ok_def request_fails_def
        backend_answers_def backend_breaks_def)

section \<open>Relaying the backend's headers\<close>












section \<open>Adding and removing addresses\<close>

lemma RemoveAddress_loop_None:
  "RemoveAddress_loop i xs a = None \<longleftrightarrow> a \<notin> set xs"
  by (induction xs arbitrary: i) auto

lemma RemoveAddress_loop_Some:
  "RemoveAddress_loop i xs a = Some j \<Longrightarrow>
     i \<le> j \<and> take (j - i) xs @ drop (Suc (j - i)) xs = remove1 a xs"
proof (induction xs arbitrary: i)
  case Nil
  then show ?case by simp
next
  case (Cons x xs)
  show ?case
  proof (cases "x = a")
    case True
    then show ?thesis using Cons.prems by simp
  next
    case False
    then have rec: "RemoveAddress_loop (Suc i) xs a = Some j" using Cons.prems by simp
    from Cons.IH [OF rec] have le: "Suc i \<le> j"
      and eq: "take (j - Suc i) xs @ drop (Suc (j - Suc i)) xs = remove1 a xs" by simp_all
    from le have "j - i = Suc (j - Suc i)" by simp
    then show ?thesis using le eq False by simp
  qed
qed

lemma RemoveAddress_present:
  "a \<in> set (elems (Addresses tw)) \<Longrightarrow>
     RemoveAddress tw a = (True, tw\<lparr>Addresses := Some (remove1 a (elems (Addresses tw)))\<rparr>)"
proof -
  assume "a \<in> set (elems (Addresses tw))"
  then obtain j where j: "RemoveAddress_loop 0 (elems (Addresses tw)) a = Some j"
    using RemoveAddress_loop_None [of 0 "elems (Addresses tw)" a] by (cases "RemoveAddress_loop 0 (elems (Addresses tw)) a") auto
  from RemoveAddress_loop_Some [OF j]
  have "take j (elems (Addresses tw)) @ drop (Suc j) (elems (Addresses tw))
      = remove1 a (elems (Addresses tw))" by simp
  then show ?thesis by (simp add: RemoveAddress_def j)
qed

lemma RemoveAddress_absent:
  "a \<notin> set (elems (Addresses tw)) \<Longrightarrow> RemoveAddress tw a = (False, tw)"
  by (simp add: RemoveAddress_def RemoveAddress_loop_None [THEN iffD2])

lemma AddAddress_empty: "AddAddress tw [] = (Some (ErrorString ''address cannot be empty''), tw)"
  by (simp add: AddAddress_def)

lemma AddAddress_present:
  "a \<noteq> [] \<Longrightarrow> a \<in> set (elems (Addresses tw)) \<Longrightarrow>
     AddAddress tw a =
       (Some (ErrorString (''address '' @ a @ '' already exists in whitelist'')), tw)"
  by (simp add: AddAddress_def Contains_loop_iff)

lemma AddAddress_absent:
  "a \<noteq> [] \<Longrightarrow> a \<notin> set (elems (Addresses tw)) \<Longrightarrow>
     AddAddress tw a = (None, tw\<lparr>Addresses := Some (elems (Addresses tw) @ [a])\<rparr>)"
  by (simp add: AddAddress_def Contains_loop_iff go_append_def)

lemma AddAddress_twice:
  assumes "a \<noteq> []" and "a \<notin> set (elems (Addresses tw))"
  shows "AddAddress (snd (AddAddress tw a)) a =
     (Some (ErrorString (''address '' @ a @ '' already exists in whitelist'')),
      snd (AddAddress tw a))"
proof -
  have "a \<in> set (elems (Addresses (snd (AddAddress tw a))))"
    by (simp add: AddAddress_absent [OF assms] elems_def)
  with assms(1) show ?thesis by (rule AddAddress_present)
qed

lemma RemoveAddress_fst: "fst (RemoveAddress tw a) \<longleftrightarrow> a \<in> set (elems (Addresses tw))"
  by (cases "a \<in> set (elems (Addresses tw))")
     (simp_all add: RemoveAddress_present RemoveAddress_absent)

lemma RemoveAddress_distinct:
  "distinct (elems (Addresses tw)) \<Longrightarrow> \<not> Contains (snd (RemoveAddress tw a)) a"
  by (cases "a \<in> set (elems (Addresses tw))")
     (simp_all add: RemoveAddress_present RemoveAddress_absent Contains_iff elems_def)

text \<open>
  C9, as amended. \<^verbatim>\<open>AddAddress("")\<close> returns an error and changes nothing; \<^verbatim>\<open>AddAddress\<close>
  of a non-empty address that is present returns the error
  \<^verbatim>\<open>address ... already exists in whitelist\<close> and changes nothing, so that adding an
  absent, non-empty address twice fails the second time;
  \<^verbatim>\<open>AddAddress\<close> of an absent, non-empty address returns no error and appends it.
  \<^verbatim>\<open>RemoveAddress\<close> returns true exactly when the address was present, and then its
  first entry is removed (its only entry, when the whitelist has no duplicates: the
  whitelist no longer contains it); when the address is absent it returns false and
  changes nothing.
\<close>

theorem AddAddress_RemoveAddress:
  "AddAddress tw [] = (Some (ErrorString ''address cannot be empty''), tw)
   \<and> (a \<noteq> [] \<and> a \<in> set (elems (Addresses tw)) \<longrightarrow>
        AddAddress tw a =
          (Some (ErrorString (''address '' @ a @ '' already exists in whitelist'')), tw))
   \<and> (a \<noteq> [] \<and> a \<notin> set (elems (Addresses tw)) \<longrightarrow>
        AddAddress tw a = (None, tw\<lparr>Addresses := Some (elems (Addresses tw) @ [a])\<rparr>)
        \<and> AddAddress (snd (AddAddress tw a)) a =
            (Some (ErrorString (''address '' @ a @ '' already exists in whitelist'')),
             snd (AddAddress tw a)))
   \<and> (fst (RemoveAddress tw a) \<longleftrightarrow> a \<in> set (elems (Addresses tw)))
   \<and> (a \<in> set (elems (Addresses tw)) \<longrightarrow>
        RemoveAddress tw a =
          (True, tw\<lparr>Addresses := Some (remove1 a (elems (Addresses tw)))\<rparr>))
   \<and> (distinct (elems (Addresses tw)) \<longrightarrow> \<not> Contains (snd (RemoveAddress tw a)) a)
   \<and> (a \<notin> set (elems (Addresses tw)) \<longrightarrow> RemoveAddress tw a = (False, tw))"
  using AddAddress_empty [of tw] AddAddress_present [of a tw] AddAddress_absent [of a tw]
    AddAddress_twice [of a tw] RemoveAddress_fst [of tw a] RemoveAddress_present [of a tw]
    RemoveAddress_absent [of a tw] RemoveAddress_distinct [of tw a]
  by blast

theorem AddAddress_RemoveAddress_witness:
  "AddAddress \<lparr>Addresses = Some [''x'', ''y'']\<rparr> ''x''
     = (Some (ErrorString ''address x already exists in whitelist''),
        \<lparr>Addresses = Some [''x'', ''y'']\<rparr>)
   \<and> AddAddress \<lparr>Addresses = Some [''x'', ''y'']\<rparr> ''z''
     = (None, \<lparr>Addresses = Some [''x'', ''y'', ''z'']\<rparr>)
   \<and> RemoveAddress \<lparr>Addresses = Some [''x'', ''y'']\<rparr> ''x''
     = (True, \<lparr>Addresses = Some [''y'']\<rparr>)
   \<and> RemoveAddress \<lparr>Addresses = Some [''x'', ''y'']\<rparr> ''q''
     = (False, \<lparr>Addresses = Some [''x'', ''y'']\<rparr>)"
  using AddAddress_RemoveAddress [of "\<lparr>Addresses = Some [''x'', ''y'']\<rparr>" "''x''"]
    AddAddress_RemoveAddress [of "\<lparr>Addresses = Some [''x'', ''y'']\<rparr>" "''z''"]
    AddAddress_RemoveAddress [of "\<lparr>Addresses = Some [''x'', ''y'']\<rparr>" "''q''"]
  by (simp add: elems_def)

text \<open>
  C9 as it is stated fails on a whitelist that holds the empty address (loaded from
  \<^verbatim>\<open>{"addresses":[""]}\<close>, which \<^verbatim>\<open>LoadFromJSON\<close> stores as it is): the empty address is
  present, and \<^verbatim>\<open>AddAddress("")\<close> is refused by the first test, with an error that is not
  the one for an address that already exists.
\<close>

theorem AddAddress_counterexample:
  "Contains \<lparr>Addresses = Some [[]]\<rparr> []
   \<and> AddAddress \<lparr>Addresses = Some [[]]\<rparr> []
       = (Some (ErrorString ''address cannot be empty''), \<lparr>Addresses = Some [[]]\<rparr>)
   \<and> fst (AddAddress \<lparr>Addresses = Some [[]]\<rparr> [])
       \<noteq> Some (ErrorString (''address '' @ [] @ '' already exists in whitelist''))
   \<and> \<not> strings_Contains ''address cannot be empty'' ''already exists''"
  by (simp add: Contains_def elems_def AddAddress_def HasPrefix_def)

section \<open>The addresses are never nil\<close>

lemma Addresses_after_call: "Addresses tw \<noteq> None \<Longrightarrow> Addresses (after_call unmarshal tw c) \<noteq> None"
  by (cases c)
     (auto simp: LoadFromJSON_def AddAddress_def RemoveAddress_def Clear_def go_append_def
        split: sum.splits option.splits)

lemma Addresses_after_callExt:
  "Addresses tw \<noteq> None \<Longrightarrow> Addresses (after_callExt unmarshal tw c) \<noteq> None"
  by (cases c)
     (auto simp: LoadFromJSONExt_def AddAddress_def RemoveAddress_def Clear_def go_append_def
        split: sum.splits option.splits)

lemma Addresses_foldl_after_call:
  "Addresses tw \<noteq> None \<Longrightarrow> Addresses (foldl (after_call unmarshal) tw cs) \<noteq> None"
proof (induction cs arbitrary: tw)
  case Nil
  then show ?case by simp
next
  case (Cons c cs)
  have "Addresses (after_call unmarshal tw c) \<noteq> None"
    using Cons.prems by (rule Addresses_after_call)
  then have "Addresses (foldl (after_call unmarshal) (after_call unmarshal tw c) cs) \<noteq> None"
    by (rule Cons.IH)
  then show ?case by simp
qed

lemma Addresses_foldl_after_callExt:
  "Addresses tw \<noteq> None \<Longrightarrow> Addresses (foldl (after_callExt unmarshal) tw cs) \<noteq> None"
proof (induction cs arbitrary: tw)
  case Nil
  then show ?case by simp
next
  case (Cons c cs)
  have "Addresses (after_callExt unmarshal tw c) \<noteq> None"
    using Cons.prems by (rule Addresses_after_callExt)
  then have "Addresses (foldl (after_callExt unmarshal) (after_callExt unmarshal tw c) cs) \<noteq> None"
    by (rule Cons.IH)
  then show ?case by simp
qed

lemma Validate_loop_not_nil:
  "Validate_loop i xs seen \<noteq> Some (ErrorString ''addresses slice is nil'')"
  by (induction xs arbitrary: i seen) auto

lemma Validate_not_nil:
  "Addresses tw \<noteq> None \<Longrightarrow> Validate tw \<noteq> Some (ErrorString ''addresses slice is nil'')"
  by (auto simp: Validate_def Validate_loop_not_nil)

text \<open>
  C10. After any finite sequence of \<^verbatim>\<open>LoadFromJSON\<close> (failing or not), \<^verbatim>\<open>AddAddress\<close>,
  \<^verbatim>\<open>RemoveAddress\<close> and \<^verbatim>\<open>Clear\<close> calls on a whitelist made by \<^verbatim>\<open>NewTokenWhitelist\<close>, the
  slice \<open>Addresses\<close> is not \<^verbatim>\<open>nil\<close>, and \<^verbatim>\<open>Validate\<close> does not fail with
  \<^verbatim>\<open>addresses slice is nil\<close>. Both definitions of the whitelist behave so.
\<close>

theorem Addresses_never_nil:
  "Addresses (after_calls unmarshal cs) \<noteq> None
   \<and> Validate (after_calls unmarshal cs) \<noteq> Some (ErrorString ''addresses slice is nil'')
   \<and> Addresses (after_callsExt unmarshalExt cs) \<noteq> None
   \<and> Validate (after_callsExt unmarshalExt cs) \<noteq> Some (ErrorString ''addresses slice is nil'')"
proof -
  have 1: "Addresses (after_calls unmarshal cs) \<noteq> None"
    unfolding after_calls_def
    by (rule Addresses_foldl_after_call) (simp add: NewTokenWhitelist_def)
  have 2: "Addresses (after_callsExt unmarshalExt cs) \<noteq> None"
    unfolding after_callsExt_def
    by (rule Addresses_foldl_after_callExt) (simp add: NewTokenWhitelistExt_def)
  show ?thesis using 1 2 by (simp add: Validate_not_nil)
qed

theorem Addresses_never_nil_witness:
  "Addresses (after_calls sample_unmarshal_addresses
      [CallLoadFromJSON ''{}'', CallLoadFromJSON ''{'', CallAddAddress ''x'',
       CallRemoveAddress ''x'', CallClear]) \<noteq> None
   \<and> Addresses (after_callsExt sample_unmarshal
      [CallLoadFromJSON ''{}'', CallLoadFromJSON ''{'', CallAddAddress ''x'',
       CallRemoveAddress ''x'', CallClear]) \<noteq> None"
  using Addresses_never_nil [of sample_unmarshal_addresses
      "[CallLoadFromJSON ''{}'', CallLoadFromJSON ''{'', CallAddAddress ''x'',
        CallRemoveAddress ''x'', CallClear]" sample_unmarshal]
  by blast


end
